theory Spec2Isabelle
  imports Main
begin

unbundle bit_operations_syntax

section \<open>Levels (log.go)\<close>

text \<open>
  \<^verbatim>\<open>type Level int\<close> with the six constants declared by \<^verbatim>\<open>iota\<close>. The package only ever
  compares levels, so the integer is kept unbounded: no arithmetic can overflow.
\<close>

type_synonym Level = int

definition DebugLevel :: Level where "DebugLevel = 0"
definition TraceLevel :: Level where "TraceLevel = 1"
definition InfoLevel :: Level where "InfoLevel = 2"
definition WarningLevel :: Level where "WarningLevel = 3"
definition ErrorLevel :: Level where "ErrorLevel = 4"
definition DisabledLevel :: Level where "DisabledLevel = 5"

text \<open>\<^verbatim>\<open>func (l Level) String() string\<close>: the switch in the order of the source, then the
  fall-through \<^verbatim>\<open>return ""\<close>.\<close>

definition Level_String :: "Level \<Rightarrow> string" where
  "Level_String l =
     (if l = DebugLevel then ''DEBUG: ''
      else if l = InfoLevel then ''INFO: ''
      else if l = ErrorLevel then ''ERROR: ''
      else if l = DisabledLevel then ''DISABLED: ''
      else if l = TraceLevel then ''TRACE: ''
      else if l = WarningLevel then ''WARNING: ''
      else [])"

section \<open>Operands and the fmt package\<close>

text \<open>
  The variadic \<^verbatim>\<open>v ...interface{}\<close> operands. \<open>GString\<close> stands for every operand whose
  reflected kind is String, the other constructors for operands of another kind.
\<close>

datatype gvalue = GString string | GInt int | GBool bool | GNil

definition newline :: char where
  "newline = CHR 0x0A"

definition digit :: "nat \<Rightarrow> char" where
  "digit n = char_of (48 + n)"

fun fmtNat :: "nat \<Rightarrow> string" where
  "fmtNat n = (if n < 10 then [digit n] else fmtNat (n div 10) @ [digit (n mod 10)])"

declare fmtNat.simps [simp del]

definition fmtInt :: "int \<Rightarrow> string" where
  "fmtInt i = (if i < 0 then CHR ''-'' # fmtNat (nat (- i)) else fmtNat (nat i))"

text \<open>\<^verbatim>\<open>isString := arg != nil && reflect.TypeOf(arg).Kind() == reflect.String\<close>\<close>

fun isString :: "gvalue \<Rightarrow> bool" where
  "isString (GString s) = True"
| "isString (GInt i) = False"
| "isString (GBool b) = False"
| "isString GNil = False"

text \<open>\<^verbatim>\<open>p.printArg(arg, 'v')\<close>: the default format of one operand.\<close>

fun printArg :: "gvalue \<Rightarrow> string" where
  "printArg (GString s) = s"
| "printArg (GInt i) = fmtInt i"
| "printArg (GBool b) = (if b then ''true'' else ''false'')"
| "printArg GNil = ''<nil>''"

text \<open>
  \<^verbatim>\<open>fmt.Sprint\<close> runs \<^verbatim>\<open>doPrint\<close>: the loop over the operands carries \<^verbatim>\<open>prevString\<close> and the
  index \<^verbatim>\<open>argNum\<close>, and writes a space between two operands when neither is a string.
\<close>

fun doPrint :: "bool \<Rightarrow> nat \<Rightarrow> gvalue list \<Rightarrow> string" where
  "doPrint prevString argNum [] = []"
| "doPrint prevString argNum (arg # a) =
     (if argNum > 0 \<and> \<not> isString arg \<and> \<not> prevString then '' '' else [])
       @ printArg arg @ doPrint (isString arg) (Suc argNum) a"

definition Sprint :: "gvalue list \<Rightarrow> string" where
  "Sprint a = doPrint False 0 a"

text \<open>\<^verbatim>\<open>fmt.Sprintln\<close> runs \<^verbatim>\<open>doPrintln\<close>: a space before every operand but the first, and
  a newline after the last.\<close>

fun doPrintln :: "nat \<Rightarrow> gvalue list \<Rightarrow> string" where
  "doPrintln argNum [] = [newline]"
| "doPrintln argNum (arg # a) =
     (if argNum > 0 then '' '' else []) @ printArg arg @ doPrintln (Suc argNum) a"

definition Sprintln :: "gvalue list \<Rightarrow> string" where
  "Sprintln a = doPrintln 0 a"

text \<open>\<^verbatim>\<open>fmt.Sprintf\<close> is not modelled: every function that calls it takes it as the
  parameter \<open>sprintf\<close>.\<close>

type_synonym Sprintf = "string \<Rightarrow> gvalue list \<Rightarrow> string"

section \<open>The process: threshold, writers, output and exit\<close>

datatype writer = Stdout | Stderr | Discard | Buffer nat

text \<open>
  What one \<^verbatim>\<open>Write\<close> call hands to a writer. The date, the time and the file name of a
  line depend on the clock and on the call stack: a line of \<^verbatim>\<open>log.Logger\<close> keeps the
  prefix, the flags and the call depth they are computed from, and the body. An entry of
  logrus keeps its severity and its message.
\<close>

datatype payload =
    Line string nat nat string
  | Entry nat string

datatype event = Wrote writer payload

datatype status = Running | Exited int | Panicked

record globalState =
  currentLevel :: Level

text \<open>
  \<open>state\<close> is the package variable of that name; \<open>outs\<close> holds the \<^verbatim>\<open>out\<close> field of every
  allocated \<^verbatim>\<open>log.Logger\<close> and \<^verbatim>\<open>logrus.Logger\<close>, by address (the one field of theirs this
  package changes after construction); \<open>trace\<close> is every \<^verbatim>\<open>Write\<close> call made so far.
\<close>

record world =
  state :: globalState
  outs :: "nat \<rightharpoonup> writer"
  next_addr :: nat
  trace :: "event list"
  status :: status

text \<open>What a reader of writer \<open>w\<close> sees: \<^verbatim>\<open>ioutil.Discard\<close> accepts every write and keeps
  nothing.\<close>

definition contents :: "writer \<Rightarrow> event list \<Rightarrow> payload list" where
  "contents w tr = (if w = Discard then [] else map (\<lambda>e. case e of Wrote _ p \<Rightarrow> p)
     (filter (\<lambda>e. case e of Wrote w' _ \<Rightarrow> w' = w) tr))"

definition io_Write :: "writer \<Rightarrow> payload \<Rightarrow> world \<Rightarrow> world" where
  "io_Write w p st = st\<lparr>trace := trace st @ [Wrote w p]\<rparr>"

definition os_Exit :: "int \<Rightarrow> world \<Rightarrow> world" where
  "os_Exit code st = st\<lparr>status := Exited code\<rparr>"

text \<open>Sequencing: the statement after a call runs only if the call returned.\<close>

definition andThen :: "world \<Rightarrow> (world \<Rightarrow> world) \<Rightarrow> world" where
  "andThen st f = (if status st = Running then f st else st)"

definition getState :: "world \<Rightarrow> globalState" where
  "getState st = state st"

definition setGlobalStateLevel :: "Level \<Rightarrow> world \<Rightarrow> world" where
  "setGlobalStateLevel lvl st = st\<lparr>state := (state st)\<lparr>currentLevel := lvl\<rparr>\<rparr>"

definition SetLevel :: "Level \<Rightarrow> world \<Rightarrow> world" where
  "SetLevel lvl st = setGlobalStateLevel lvl st"

section \<open>The standard logger (log.go)\<close>

definition Ldate :: nat where "Ldate = 1"
definition Ltime :: nat where "Ltime = 2"
definition Lshortfile :: nat where "Lshortfile = 16"
definition LstdFlags :: nat where "LstdFlags = Ldate OR Ltime"

text \<open>A \<^verbatim>\<open>*log.Logger\<close>: its address, and the prefix and flags \<^verbatim>\<open>log.New\<close> gave it.\<close>

record log_Logger =
  lg_addr :: nat
  lg_prefix :: string
  lg_flag :: nat

record stdLogger =
  std_level :: Level
  std_l :: log_Logger

text \<open>\<^verbatim>\<open>if len(s) == 0 || s[len(s)-1] != '\n' { l.buf = append(l.buf, '\n') }\<close>\<close>

definition terminated :: "string \<Rightarrow> string" where
  "terminated s = s @ (if length s = 0 \<or> last s \<noteq> newline then [newline] else [])"

text \<open>
  \<^verbatim>\<open>(*log.Logger).Output\<close>: the header, the message, a newline unless the message ends
  with one, in one \<^verbatim>\<open>Write\<close>. A logger that was never allocated is a nil pointer.
\<close>

definition log_Output :: "log_Logger \<Rightarrow> nat \<Rightarrow> string \<Rightarrow> world \<Rightarrow> world" where
  "log_Output lg calldepth s st =
     (case outs st (lg_addr lg) of
        None \<Rightarrow> st\<lparr>status := Panicked\<rparr>
      | Some w \<Rightarrow>
          io_Write w (Line (lg_prefix lg) (lg_flag lg) calldepth (terminated s)) st)"

definition log_SetOutput :: "nat \<Rightarrow> writer \<Rightarrow> world \<Rightarrow> world" where
  "log_SetOutput a w st =
     (case outs st a of
        None \<Rightarrow> st\<lparr>status := Panicked\<rparr>
      | Some _ \<Rightarrow> st\<lparr>outs := (outs st)(a \<mapsto> w)\<rparr>)"

definition stdCallDepth :: nat where
  "stdCallDepth = 3"

definition isPrint :: "stdLogger \<Rightarrow> world \<Rightarrow> bool" where
  "isPrint l st =
     (let gstate = getState st in
      if std_level l < currentLevel gstate then False else True)"

definition stdLogger_Output :: "stdLogger \<Rightarrow> nat \<Rightarrow> string \<Rightarrow> world \<Rightarrow> world" where
  "stdLogger_Output l calldepth s st = log_Output (std_l l) calldepth s st"

definition stdLogger_Print :: "stdLogger \<Rightarrow> gvalue list \<Rightarrow> world \<Rightarrow> world" where
  "stdLogger_Print l v st =
     (if \<not> isPrint l st then st
      else stdLogger_Output l stdCallDepth (Sprint v) st)"

definition stdLogger_Printf :: "Sprintf \<Rightarrow> stdLogger \<Rightarrow> string \<Rightarrow> gvalue list \<Rightarrow> world \<Rightarrow> world" where
  "stdLogger_Printf sprintf l format v st =
     (if \<not> isPrint l st then st
      else stdLogger_Output l stdCallDepth (sprintf format v) st)"

definition stdLogger_Println :: "stdLogger \<Rightarrow> gvalue list \<Rightarrow> world \<Rightarrow> world" where
  "stdLogger_Println l v st =
     (if \<not> isPrint l st then st
      else stdLogger_Output l stdCallDepth (Sprintln v) st)"

definition stdLogger_Fatal :: "stdLogger \<Rightarrow> gvalue list \<Rightarrow> world \<Rightarrow> world" where
  "stdLogger_Fatal l v st =
     (if \<not> isPrint l st then st
      else andThen (stdLogger_Output l stdCallDepth (Sprint v) st) (os_Exit 1))"

definition stdLogger_Fatalf :: "Sprintf \<Rightarrow> stdLogger \<Rightarrow> string \<Rightarrow> gvalue list \<Rightarrow> world \<Rightarrow> world" where
  "stdLogger_Fatalf sprintf l format v st =
     (if \<not> isPrint l st then st
      else andThen (stdLogger_Output l stdCallDepth (sprintf format v) st) (os_Exit 1))"

definition stdLogger_SetOutput :: "stdLogger \<Rightarrow> writer \<Rightarrow> world \<Rightarrow> world" where
  "stdLogger_SetOutput l w st = log_SetOutput (lg_addr (std_l l)) w st"

subsection \<open>The six singletons and the factory\<close>

definition DebugLogger :: stdLogger where
  "DebugLogger = \<lparr>std_level = DebugLevel,
     std_l = \<lparr>lg_addr = 0, lg_prefix = Level_String DebugLevel, lg_flag = LstdFlags OR Lshortfile\<rparr>\<rparr>"

definition TraceLogger :: stdLogger where
  "TraceLogger = \<lparr>std_level = TraceLevel,
     std_l = \<lparr>lg_addr = 1, lg_prefix = Level_String TraceLevel, lg_flag = LstdFlags OR Lshortfile\<rparr>\<rparr>"

definition InfoLogger :: stdLogger where
  "InfoLogger = \<lparr>std_level = InfoLevel,
     std_l = \<lparr>lg_addr = 2, lg_prefix = Level_String InfoLevel, lg_flag = LstdFlags\<rparr>\<rparr>"

definition WarningLogger :: stdLogger where
  "WarningLogger = \<lparr>std_level = WarningLevel,
     std_l = \<lparr>lg_addr = 3, lg_prefix = Level_String WarningLevel, lg_flag = LstdFlags\<rparr>\<rparr>"

definition ErrorLogger :: stdLogger where
  "ErrorLogger = \<lparr>std_level = ErrorLevel,
     std_l = \<lparr>lg_addr = 4, lg_prefix = Level_String ErrorLevel, lg_flag = LstdFlags OR Lshortfile\<rparr>\<rparr>"

definition DisabledLogger :: stdLogger where
  "DisabledLogger = \<lparr>std_level = DisabledLevel,
     std_l = \<lparr>lg_addr = 5, lg_prefix = Level_String DisabledLevel, lg_flag = LstdFlags OR Lshortfile\<rparr>\<rparr>"

definition singletons :: "stdLogger list" where
  "singletons =
     [DebugLogger, TraceLogger, InfoLogger, WarningLogger, ErrorLogger, DisabledLogger]"

text \<open>The package's variables at process start: the threshold is \<^verbatim>\<open>InfoLevel\<close>, five
  singletons write to \<^verbatim>\<open>os.Stdout\<close> and \<^verbatim>\<open>DisabledLogger\<close> to \<^verbatim>\<open>ioutil.Discard\<close>.\<close>

definition init :: world where
  "init = \<lparr>state = \<lparr>currentLevel = InfoLevel\<rparr>,
     outs = [0 \<mapsto> Stdout, 1 \<mapsto> Stdout, 2 \<mapsto> Stdout, 3 \<mapsto> Stdout, 4 \<mapsto> Stdout, 5 \<mapsto> Discard],
     next_addr = 6, trace = [], status = Running\<rparr>"

text \<open>\<^verbatim>\<open>loggerFactory\<close>: \<^verbatim>\<open>var l Logger\<close> starts as the nil interface (\<open>None\<close>) and the
  switch has no default.\<close>

definition loggerFactory :: "Level \<Rightarrow> stdLogger option" where
  "loggerFactory level =
     (if level = DebugLevel then Some DebugLogger
      else if level = TraceLevel then Some TraceLogger
      else if level = InfoLevel then Some InfoLogger
      else if level = WarningLevel then Some WarningLogger
      else if level = ErrorLevel then Some ErrorLogger
      else if level = DisabledLevel then Some DisabledLogger
      else None)"

definition NewStdLogger :: "Level \<Rightarrow> stdLogger option" where
  "NewStdLogger level = loggerFactory level"

section \<open>The structured adapter (logrus.go)\<close>

text \<open>
  The severities of the logrus package, \<^verbatim>\<open>type Level uint32\<close>: a smaller number is more
  severe, and a logger set to \<open>logrus_TraceLevel\<close> lets every severity through.
\<close>

definition logrus_PanicLevel :: nat where "logrus_PanicLevel = 0"
definition logrus_FatalLevel :: nat where "logrus_FatalLevel = 1"
definition logrus_ErrorLevel :: nat where "logrus_ErrorLevel = 2"
definition logrus_WarnLevel :: nat where "logrus_WarnLevel = 3"
definition logrus_InfoLevel :: nat where "logrus_InfoLevel = 4"
definition logrus_DebugLevel :: nat where "logrus_DebugLevel = 5"
definition logrus_TraceLevel :: nat where "logrus_TraceLevel = 6"

text \<open>A \<^verbatim>\<open>*logrus.Logger\<close>: its address and the severity ceiling \<^verbatim>\<open>SetLevel\<close> gave it.\<close>

record logrus_Logger =
  lr_addr :: nat
  lr_Level :: nat

definition logrus_IsLevelEnabled :: "logrus_Logger \<Rightarrow> nat \<Rightarrow> bool" where
  "logrus_IsLevelEnabled lg level = (lr_Level lg \<ge> level)"

text \<open>\<^verbatim>\<open>(*Entry).log\<close>: one write of the rendered entry, then a panic at panic severity.\<close>

definition entry_log :: "logrus_Logger \<Rightarrow> nat \<Rightarrow> string \<Rightarrow> world \<Rightarrow> world" where
  "entry_log lg level msg st =
     (case outs st (lr_addr lg) of
        None \<Rightarrow> st\<lparr>status := Panicked\<rparr>
      | Some w \<Rightarrow>
          (let st' = io_Write w (Entry level msg) st in
           if level \<le> logrus_PanicLevel then st'\<lparr>status := Panicked\<rparr> else st'))"

definition logrus_Log :: "logrus_Logger \<Rightarrow> nat \<Rightarrow> gvalue list \<Rightarrow> world \<Rightarrow> world" where
  "logrus_Log lg level args st =
     (if logrus_IsLevelEnabled lg level then entry_log lg level (Sprint args) st else st)"

definition logrus_Logf ::
  "Sprintf \<Rightarrow> logrus_Logger \<Rightarrow> nat \<Rightarrow> string \<Rightarrow> gvalue list \<Rightarrow> world \<Rightarrow> world" where
  "logrus_Logf sprintf lg level format args st =
     (if logrus_IsLevelEnabled lg level then entry_log lg level (sprintf format args) st else st)"

definition logrus_SetOutput :: "logrus_Logger \<Rightarrow> writer \<Rightarrow> world \<Rightarrow> world" where
  "logrus_SetOutput lg w st =
     (case outs st (lr_addr lg) of
        None \<Rightarrow> st\<lparr>status := Panicked\<rparr>
      | Some _ \<Rightarrow> st\<lparr>outs := (outs st)(lr_addr lg \<mapsto> w)\<rparr>)"

record Logrus =
  logger :: logrus_Logger
  lr_level :: Level
  logrusLevel :: nat

text \<open>
  \<^verbatim>\<open>NewLogrusLogger\<close>: \<^verbatim>\<open>logrus.New()\<close> allocates a logger that writes to \<^verbatim>\<open>os.Stderr\<close>,
  \<^verbatim>\<open>SetLevel(logrus.TraceLevel)\<close> opens it, and the switch picks the severity;
  \<^verbatim>\<open>var llevel logrus.Level\<close> starts at the zero value, which no case of the switch
  overwrites for a level outside the six.
\<close>

definition NewLogrusLogger :: "Level \<Rightarrow> world \<Rightarrow> Logrus \<times> world" where
  "NewLogrusLogger level st =
     (let a = next_addr st;
          st' = st\<lparr>outs := (outs st)(a \<mapsto> Stderr), next_addr := Suc a\<rparr>;
          l = \<lparr>lr_addr = a, lr_Level = logrus_TraceLevel\<rparr>;
          llevel =
            (if level = DebugLevel then logrus_DebugLevel
             else if level = TraceLevel then logrus_TraceLevel
             else if level = InfoLevel then logrus_InfoLevel
             else if level = WarningLevel then logrus_WarnLevel
             else if level = ErrorLevel then logrus_ErrorLevel
             else if level = DisabledLevel then logrus_InfoLevel
             else 0)
      in (\<lparr>logger = l, lr_level = level, logrusLevel = llevel\<rparr>, st'))"

definition isEnabled :: "Logrus \<Rightarrow> world \<Rightarrow> bool" where
  "isEnabled l st =
     (let gstate = getState st in
      if lr_level l < currentLevel gstate then False else True)"

text \<open>\<^verbatim>\<open>func (l *Logrus) Printf(format string, v ...interface{}) {}\<close>: the body is empty.\<close>

definition Logrus_Printf :: "Logrus \<Rightarrow> string \<Rightarrow> gvalue list \<Rightarrow> world \<Rightarrow> world" where
  "Logrus_Printf l format v st = st"

definition Logrus_Print :: "Logrus \<Rightarrow> gvalue list \<Rightarrow> world \<Rightarrow> world" where
  "Logrus_Print l v st =
     (if isEnabled l st then logrus_Log (logger l) (logrusLevel l) v st else st)"

definition Logrus_Println :: "Logrus \<Rightarrow> gvalue list \<Rightarrow> world \<Rightarrow> world" where
  "Logrus_Println l v st =
     (if isEnabled l st then logrus_Log (logger l) (logrusLevel l) v st else st)"

definition Logrus_Fatal :: "Logrus \<Rightarrow> gvalue list \<Rightarrow> world \<Rightarrow> world" where
  "Logrus_Fatal l v st =
     (if isEnabled l st
      then andThen (logrus_Log (logger l) (logrusLevel l) v st) (os_Exit 1)
      else st)"

text \<open>\<^verbatim>\<open>Fatalf\<close> of the adapter: \<^verbatim>\<open>Logf\<close> under the gate, and nothing after it.\<close>

definition Logrus_Fatalf :: "Sprintf \<Rightarrow> Logrus \<Rightarrow> string \<Rightarrow> gvalue list \<Rightarrow> world \<Rightarrow> world" where
  "Logrus_Fatalf sprintf l format v st =
     (if isEnabled l st then logrus_Logf sprintf (logger l) (logrusLevel l) format v st else st)"

definition Logrus_SetOutput :: "Logrus \<Rightarrow> writer \<Rightarrow> world \<Rightarrow> world" where
  "Logrus_SetOutput l w st = logrus_SetOutput (logger l) w st"

section \<open>The Logger interface and runs of calls\<close>

text \<open>The six methods of \<^verbatim>\<open>type Logger interface\<close>, with their arguments.\<close>

datatype call =
    Printf string "gvalue list"
  | Print "gvalue list"
  | Println "gvalue list"
  | Fatal "gvalue list"
  | Fatalf string "gvalue list"
  | SetOutput writer

datatype Logger = Std stdLogger | Structured Logrus

fun invoke :: "Sprintf \<Rightarrow> Logger \<Rightarrow> call \<Rightarrow> world \<Rightarrow> world" where
  "invoke sp (Std l) (Printf format v) st = stdLogger_Printf sp l format v st"
| "invoke sp (Std l) (Print v) st = stdLogger_Print l v st"
| "invoke sp (Std l) (Println v) st = stdLogger_Println l v st"
| "invoke sp (Std l) (Fatal v) st = stdLogger_Fatal l v st"
| "invoke sp (Std l) (Fatalf format v) st = stdLogger_Fatalf sp l format v st"
| "invoke sp (Std l) (SetOutput w) st = stdLogger_SetOutput l w st"
| "invoke sp (Structured l) (Printf format v) st = Logrus_Printf l format v st"
| "invoke sp (Structured l) (Print v) st = Logrus_Print l v st"
| "invoke sp (Structured l) (Println v) st = Logrus_Println l v st"
| "invoke sp (Structured l) (Fatal v) st = Logrus_Fatal l v st"
| "invoke sp (Structured l) (Fatalf format v) st = Logrus_Fatalf sp l format v st"
| "invoke sp (Structured l) (SetOutput w) st = Logrus_SetOutput l w st"

text \<open>A program's calls into the package, one after the other: a method of a logger, or
  \<^verbatim>\<open>SetLevel\<close>. Nothing runs after the process has exited or panicked.\<close>

datatype action = Invoke Logger call | Threshold Level

fun is_Threshold :: "action \<Rightarrow> bool" where
  "is_Threshold (Threshold lvl) = True"
| "is_Threshold (Invoke l c) = False"

fun step :: "Sprintf \<Rightarrow> action \<Rightarrow> world \<Rightarrow> world" where
  "step sp (Invoke l c) st = invoke sp l c st"
| "step sp (Threshold lvl) st = SetLevel lvl st"

fun run :: "Sprintf \<Rightarrow> action list \<Rightarrow> world \<Rightarrow> world" where
  "run sp [] st = st"
| "run sp (a # as) st = (if status st = Running then run sp as (step sp a st) else st)"

section \<open>The lock around the threshold\<close>

text \<open>
  The same three functions, now returning the accesses they make to the mutex \<^verbatim>\<open>mu\<close> and
  to the shared variables, in program order. \<^verbatim>\<open>defer mu.Unlock()\<close> runs when the
  function returns, after the returned expression has been evaluated.
\<close>

datatype access = Lock | Unlock | ReadStatePtr | ReadCurrentLevel | WriteCurrentLevel

definition getState_acc :: "world \<Rightarrow> globalState \<times> access list" where
  "getState_acc st = (state st, [Lock, ReadStatePtr, Unlock])"

definition setGlobalStateLevel_acc :: "Level \<Rightarrow> world \<Rightarrow> world \<times> access list" where
  "setGlobalStateLevel_acc lvl st =
     (st\<lparr>state := (state st)\<lparr>currentLevel := lvl\<rparr>\<rparr>, [Lock, ReadStatePtr, WriteCurrentLevel, Unlock])"

definition isPrint_acc :: "stdLogger \<Rightarrow> world \<Rightarrow> bool \<times> access list" where
  "isPrint_acc l st =
     (let (gstate, acc) = getState_acc st in
      (if std_level l < currentLevel gstate then False else True, acc @ [ReadCurrentLevel]))"

definition isEnabled_acc :: "Logrus \<Rightarrow> world \<Rightarrow> bool \<times> access list" where
  "isEnabled_acc l st =
     (let (gstate, acc) = getState_acc st in
      (if lr_level l < currentLevel gstate then False else True, acc @ [ReadCurrentLevel]))"

text \<open>Whether every access to \<^verbatim>\<open>currentLevel\<close> in a sequence happens while the mutex is
  held; the first argument says whether it is held at the start.\<close>

fun guarded :: "bool \<Rightarrow> access list \<Rightarrow> bool" where
  "guarded held [] = True"
| "guarded held (Lock # acc) = guarded True acc"
| "guarded held (Unlock # acc) = guarded False acc"
| "guarded held (ReadStatePtr # acc) = guarded held acc"
| "guarded held (ReadCurrentLevel # acc) = (held \<and> guarded held acc)"
| "guarded held (WriteCurrentLevel # acc) = (held \<and> guarded held acc)"

section \<open>The words of the specification\<close>

text \<open>"Space-separated": the pieces with one space between neighbours.\<close>

fun spaced :: "string list \<Rightarrow> string" where
  "spaced [] = []"
| "spaced [x] = x"
| "spaced (x # y # ys) = x @ '' '' @ spaced (y # ys)"

text \<open>"Concatenated, with a space between two neighbours when neither is a string".\<close>

fun joined :: "gvalue list \<Rightarrow> string" where
  "joined [] = []"
| "joined [x] = printArg x"
| "joined (x # y # ys) =
     printArg x @ (if \<not> isString x \<and> \<not> isString y then '' '' else []) @ joined (y # ys)"

text \<open>The number of neighbouring operands neither of which is a string.\<close>

fun gaps :: "gvalue list \<Rightarrow> nat" where
  "gaps [] = 0"
| "gaps [x] = 0"
| "gaps (x # y # ys) = (if \<not> isString x \<and> \<not> isString y then 1 else 0) + gaps (y # ys)"

section \<open>Basic facts\<close>

lemmas Level_defs =
  DebugLevel_def TraceLevel_def InfoLevel_def WarningLevel_def ErrorLevel_def DisabledLevel_def

lemmas singleton_defs =
  DebugLogger_def TraceLogger_def InfoLogger_def WarningLogger_def ErrorLogger_def
  DisabledLogger_def

lemmas logrus_defs =
  logrus_PanicLevel_def logrus_FatalLevel_def logrus_ErrorLevel_def logrus_WarnLevel_def
  logrus_InfoLevel_def logrus_DebugLevel_def logrus_TraceLevel_def

lemma isPrint_iff: "isPrint l st = (currentLevel (state st) \<le> std_level l)"
  by (auto simp: isPrint_def getState_def)

lemma isEnabled_iff: "isEnabled l st = (currentLevel (state st) \<le> lr_level l)"
  by (auto simp: isEnabled_def getState_def)

lemma log_Output_state: "state (log_Output lg d s st) = state st"
  by (simp add: log_Output_def io_Write_def split: option.splits)

lemma entry_log_state: "state (entry_log lg lvl msg st) = state st"
  by (simp add: entry_log_def io_Write_def Let_def split: option.splits)

lemma andThen_Exit_state: "state (andThen st (os_Exit c)) = state st"
  by (simp add: andThen_def os_Exit_def)

lemma invoke_state: "state (invoke sp l c st) = state st"
proof (cases l)
  case (Std x)
  then show ?thesis
    by (cases c)
      (simp_all add: stdLogger_Printf_def stdLogger_Print_def stdLogger_Println_def
        stdLogger_Fatal_def stdLogger_Fatalf_def stdLogger_SetOutput_def stdLogger_Output_def
        log_SetOutput_def log_Output_state andThen_Exit_state split: option.splits)
next
  case (Structured x)
  then show ?thesis
    by (cases c)
      (simp_all add: Logrus_Printf_def Logrus_Print_def Logrus_Println_def Logrus_Fatal_def
        Logrus_Fatalf_def Logrus_SetOutput_def logrus_SetOutput_def logrus_Log_def
        logrus_Logf_def entry_log_state andThen_Exit_state split: option.splits)
qed

text \<open>No method of a logger writes the threshold: a run without \<^verbatim>\<open>SetLevel\<close> keeps it.\<close>

lemma run_state:
  "\<forall>a \<in> set as. \<not> is_Threshold a \<Longrightarrow> state (run sp as st) = state st"
proof (induction as arbitrary: st)
  case Nil
  then show ?case by simp
next
  case (Cons a as)
  then obtain l c where a: "a = Invoke l c"
    by (cases a) auto
  from Cons show ?case
    by (simp add: a invoke_state)
qed

lemma log_Output_trace:
  "outs st (lg_addr lg) = Some w \<Longrightarrow>
   log_Output lg d s st =
     st\<lparr>trace := trace st @ [Wrote w (Line (lg_prefix lg) (lg_flag lg) d (terminated s))]\<rparr>"
  by (simp add: log_Output_def io_Write_def)

section \<open>Level display\<close>

text \<open>
  Claim C7. \<^verbatim>\<open>String()\<close> on each of the six defined levels returns its documented prefix,
  "DEBUG: ", "TRACE: ", "INFO: ", "WARNING: ", "ERROR: ", "DISABLED: ", and on every other
  integer it returns the empty string.
\<close>

theorem Level_String_prefixes:
  "Level_String DebugLevel = ''DEBUG: '' \<and> Level_String TraceLevel = ''TRACE: '' \<and>
   Level_String InfoLevel = ''INFO: '' \<and> Level_String WarningLevel = ''WARNING: '' \<and>
   Level_String ErrorLevel = ''ERROR: '' \<and> Level_String DisabledLevel = ''DISABLED: '' \<and>
   (l \<notin> {DebugLevel, TraceLevel, InfoLevel, WarningLevel, ErrorLevel, DisabledLevel}
      \<longrightarrow> Level_String l = [])"
  by (simp add: Level_String_def Level_defs)

theorem Level_String_prefixes_witness:
  "(7::int) \<notin> {DebugLevel, TraceLevel, InfoLevel, WarningLevel, ErrorLevel, DisabledLevel} \<and>
   Level_String 7 = [] \<and> Level_String (- 1) = [] \<and> Level_String DisabledLevel = ''DISABLED: ''"
  using Level_String_prefixes [of 7] Level_String_prefixes [of "- 1"]
  by (simp add: Level_defs)

section \<open>The factory\<close>

lemma NewStdLogger_level:
  "NewStdLogger level = Some l \<Longrightarrow> std_level l = level \<and> l \<in> set singletons"
  by (auto simp: NewStdLogger_def loggerFactory_def singletons_def singleton_defs
      split: if_splits)

text \<open>
  Claim C8. For each of the six defined levels \<^verbatim>\<open>NewStdLogger\<close> returns the singleton bound
  to that level, and for every other level it returns the nil interface value: a result,
  not an error.
\<close>

theorem NewStdLogger_boundary:
  "NewStdLogger DebugLevel = Some DebugLogger \<and> NewStdLogger TraceLevel = Some TraceLogger \<and>
   NewStdLogger InfoLevel = Some InfoLogger \<and> NewStdLogger WarningLevel = Some WarningLogger \<and>
   NewStdLogger ErrorLevel = Some ErrorLogger \<and> NewStdLogger DisabledLevel = Some DisabledLogger \<and>
   (\<forall>l \<in> set singletons. NewStdLogger (std_level l) = Some l) \<and>
   (level \<notin> {DebugLevel, TraceLevel, InfoLevel, WarningLevel, ErrorLevel, DisabledLevel}
      \<longrightarrow> NewStdLogger level = None)"
  by (simp add: NewStdLogger_def loggerFactory_def Level_defs singletons_def singleton_defs)

theorem NewStdLogger_boundary_witness:
  "(6::int) \<notin> {DebugLevel, TraceLevel, InfoLevel, WarningLevel, ErrorLevel, DisabledLevel} \<and>
   NewStdLogger 6 = None \<and> NewStdLogger (- 3) = None \<and>
   WarningLogger \<in> set singletons \<and> NewStdLogger (std_level WarningLogger) = Some WarningLogger"
  using NewStdLogger_boundary [of 6] NewStdLogger_boundary [of "- 3"]
  by (simp add: Level_defs singletons_def)

section \<open>The threshold\<close>

text \<open>
  Claim C4. For every level \<open>X\<close>, inside or outside the six defined ones, \<^verbatim>\<open>SetLevel(X)\<close>
  makes \<open>X\<close> the threshold and changes nothing else, whatever the world was before; every
  gate check of a singleton after it compares the singleton's level with \<open>X\<close>, also after
  any number of calls of logger methods in between.
\<close>

theorem SetLevel_propagates:
  "currentLevel (getState (SetLevel X st)) = X \<and>
   outs (SetLevel X st) = outs st \<and> trace (SetLevel X st) = trace st \<and>
   status (SetLevel X st) = status st \<and>
   (\<forall>l \<in> set singletons. isPrint l (SetLevel X st) = (X \<le> std_level l)) \<and>
   ((\<forall>a \<in> set as. \<not> is_Threshold a) \<longrightarrow>
      (\<forall>l \<in> set singletons. isPrint l (run sp as (SetLevel X st)) = (X \<le> std_level l)))"
  by (simp add: isPrint_iff run_state)
    (simp add: SetLevel_def setGlobalStateLevel_def getState_def)

theorem SetLevel_propagates_witness:
  "\<forall>sp. currentLevel (getState (SetLevel 9 init)) = 9 \<and>
     DisabledLogger \<in> set singletons \<and>
     \<not> isPrint DisabledLogger (SetLevel 9 init) \<and>
     \<not> is_Threshold (Invoke (Std ErrorLogger) (Printf ''%d'' [GInt 1])) \<and>
     \<not> is_Threshold (Invoke (Std DebugLogger) (Print [GString ''x''])) \<and>
     ErrorLogger \<in> set singletons \<and>
     isPrint ErrorLogger
       (run sp [Invoke (Std ErrorLogger) (Printf ''%d'' [GInt 1]),
                Invoke (Std DebugLogger) (Print [GString ''x''])] (SetLevel WarningLevel init)) \<and>
     InfoLogger \<in> set singletons \<and>
     \<not> isPrint InfoLogger
       (run sp [Invoke (Std ErrorLogger) (Printf ''%d'' [GInt 1]),
                Invoke (Std DebugLogger) (Print [GString ''x''])] (SetLevel WarningLevel init))"
proof
  fix sp
  let ?as = "[Invoke (Std ErrorLogger) (Printf ''%d'' [GInt 1]),
              Invoke (Std DebugLogger) (Print [GString ''x''])]"
  have m: "DisabledLogger \<in> set singletons" "ErrorLogger \<in> set singletons"
    "InfoLogger \<in> set singletons"
    by (simp_all add: singletons_def)
  have n: "\<forall>a \<in> set ?as. \<not> is_Threshold a"
    by simp
  have lv: "std_level DisabledLogger = 5" "std_level ErrorLogger = 4" "std_level InfoLogger = 2"
    by (simp_all add: singleton_defs Level_defs)
  note a = SetLevel_propagates [of 9 init "[]" sp]
  note b = SetLevel_propagates [of WarningLevel init ?as sp]
  from a m have 1: "currentLevel (getState (SetLevel 9 init)) = 9"
    "isPrint DisabledLogger (SetLevel 9 init) = (9 \<le> std_level DisabledLogger)"
    by blast+
  from b n m have 2:
    "isPrint ErrorLogger (run sp ?as (SetLevel WarningLevel init))
       = (WarningLevel \<le> std_level ErrorLogger)"
    "isPrint InfoLogger (run sp ?as (SetLevel WarningLevel init))
       = (WarningLevel \<le> std_level InfoLogger)"
    by blast+
  show "currentLevel (getState (SetLevel 9 init)) = 9 \<and>
     DisabledLogger \<in> set singletons \<and>
     \<not> isPrint DisabledLogger (SetLevel 9 init) \<and>
     \<not> is_Threshold (Invoke (Std ErrorLogger) (Printf ''%d'' [GInt 1])) \<and>
     \<not> is_Threshold (Invoke (Std DebugLogger) (Print [GString ''x''])) \<and>
     ErrorLogger \<in> set singletons \<and>
     isPrint ErrorLogger (run sp ?as (SetLevel WarningLevel init)) \<and>
     InfoLogger \<in> set singletons \<and>
     \<not> isPrint InfoLogger (run sp ?as (SetLevel WarningLevel init))"
    using 1 2 m n lv by (simp add: WarningLevel_def)
qed

section \<open>Fatal under a closed gate\<close>

text \<open>
  Claim C2. When the level \<open>L\<close> of a logger is below the threshold \<open>G\<close>, \<^verbatim>\<open>Fatal\<close> and
  \<^verbatim>\<open>Fatalf\<close> return the world as it was, for the standard logger and for the adapter: the
  process keeps running and no writer receives anything.
\<close>

theorem Fatal_respects_gating:
  assumes "L < G" and "currentLevel (state st) = G"
    and "std_level l = L" and "lr_level r = L"
  shows "stdLogger_Fatal l v st = st \<and> stdLogger_Fatalf sp l format v st = st \<and>
         Logrus_Fatal r v st = st \<and> Logrus_Fatalf sp r format v st = st"
  using assms
  by (simp add: stdLogger_Fatal_def stdLogger_Fatalf_def Logrus_Fatal_def Logrus_Fatalf_def
      isPrint_iff isEnabled_iff)

theorem Fatal_respects_gating_witness:
  "\<forall>sp. DebugLevel < InfoLevel \<and>
     currentLevel (state (snd (NewLogrusLogger DebugLevel init))) = InfoLevel \<and>
     std_level DebugLogger = DebugLevel \<and>
     lr_level (fst (NewLogrusLogger DebugLevel init)) = DebugLevel \<and>
     status (stdLogger_Fatal DebugLogger [GString ''x''] (snd (NewLogrusLogger DebugLevel init)))
       = Running \<and>
     trace (stdLogger_Fatalf sp DebugLogger ''%s'' [GString ''x'']
       (snd (NewLogrusLogger DebugLevel init))) = [] \<and>
     status (Logrus_Fatal (fst (NewLogrusLogger DebugLevel init)) [GString ''x'']
       (snd (NewLogrusLogger DebugLevel init))) = Running \<and>
     trace (Logrus_Fatalf sp (fst (NewLogrusLogger DebugLevel init)) ''%s'' [GString ''x'']
       (snd (NewLogrusLogger DebugLevel init))) = []"
proof
  fix sp
  have g: "DebugLevel < InfoLevel"
    by (simp add: Level_defs)
  have t: "currentLevel (state (snd (NewLogrusLogger DebugLevel init))) = InfoLevel"
    by (simp add: NewLogrusLogger_def Let_def init_def)
  have l: "std_level DebugLogger = DebugLevel"
    by (simp add: DebugLogger_def)
  have r: "lr_level (fst (NewLogrusLogger DebugLevel init)) = DebugLevel"
    by (simp add: NewLogrusLogger_def Let_def)
  have s: "status (snd (NewLogrusLogger DebugLevel init)) = Running"
    "trace (snd (NewLogrusLogger DebugLevel init)) = []"
    by (simp_all add: NewLogrusLogger_def Let_def init_def)
  show "DebugLevel < InfoLevel \<and>
     currentLevel (state (snd (NewLogrusLogger DebugLevel init))) = InfoLevel \<and>
     std_level DebugLogger = DebugLevel \<and>
     lr_level (fst (NewLogrusLogger DebugLevel init)) = DebugLevel \<and>
     status (stdLogger_Fatal DebugLogger [GString ''x''] (snd (NewLogrusLogger DebugLevel init)))
       = Running \<and>
     trace (stdLogger_Fatalf sp DebugLogger ''%s'' [GString ''x'']
       (snd (NewLogrusLogger DebugLevel init))) = [] \<and>
     status (Logrus_Fatal (fst (NewLogrusLogger DebugLevel init)) [GString ''x'']
       (snd (NewLogrusLogger DebugLevel init))) = Running \<and>
     trace (Logrus_Fatalf sp (fst (NewLogrusLogger DebugLevel init)) ''%s'' [GString ''x'']
       (snd (NewLogrusLogger DebugLevel init))) = []"
    using Fatal_respects_gating [OF g t l r, of "[GString ''x'']" sp "''%s''"] g t l r s
    by simp
qed

section \<open>Plain rendering\<close>

lemma doPrint_joined:
  "doPrint prev (Suc n) (y # ys) =
     (if \<not> prev \<and> \<not> isString y then '' '' else []) @ joined (y # ys)"
proof (induction ys arbitrary: prev n y)
  case Nil
  then show ?case by simp
next
  case (Cons z zs)
  have "doPrint prev (Suc n) (y # z # zs) =
      (if \<not> prev \<and> \<not> isString y then '' '' else []) @ printArg y
        @ doPrint (isString y) (Suc (Suc n)) (z # zs)"
    by simp
  also have "doPrint (isString y) (Suc (Suc n)) (z # zs) =
      (if \<not> isString y \<and> \<not> isString z then '' '' else []) @ joined (z # zs)"
    by (rule Cons.IH)
  finally show ?case by simp
qed

lemma Sprint_joined: "Sprint v = joined v"
proof (cases v)
  case Nil
  then show ?thesis by (simp add: Sprint_def)
next
  case (Cons x xs)
  show ?thesis
  proof (cases xs)
    case Nil
    with Cons show ?thesis by (simp add: Sprint_def)
  next
    case (Cons y ys)
    with \<open>v = x # xs\<close> show ?thesis
      using doPrint_joined [of "isString x" 0 y ys]
      by (simp add: Sprint_def)
  qed
qed

lemma length_joined: "length (joined v) = length (concat (map printArg v)) + gaps v"
  by (induction v rule: gaps.induct) auto

lemma joined_concat: "gaps v = 0 \<Longrightarrow> joined v = concat (map printArg v)"
  by (induction v rule: gaps.induct) (auto split: if_splits)

lemma Sprint_concat_iff: "(Sprint v = concat (map printArg v)) = (gaps v = 0)"
proof
  assume "Sprint v = concat (map printArg v)"
  then have "length (joined v) = length (concat (map printArg v))"
    by (simp add: Sprint_joined)
  then show "gaps v = 0"
    by (simp add: length_joined)
next
  assume "gaps v = 0"
  then show "Sprint v = concat (map printArg v)"
    by (simp add: Sprint_joined joined_concat)
qed

lemma gaps_strings: "list_all isString v \<Longrightarrow> gaps v = 0"
  by (induction v rule: gaps.induct) auto

lemma doPrintln_Suc:
  "doPrintln (Suc n) a = concat (map (\<lambda>x. '' '' @ printArg x) a) @ [newline]"
  by (induction a arbitrary: n) auto

lemma spaced_Cons: "spaced (x # xs) = x @ concat (map (\<lambda>y. '' '' @ y) xs)"
  by (induction xs arbitrary: x) auto

lemma Sprintln_spaced: "Sprintln v = spaced (map printArg v) @ [newline]"
proof (cases v)
  case Nil
  then show ?thesis by (simp add: Sprintln_def)
next
  case (Cons x xs)
  then show ?thesis
    by (simp add: Sprintln_def doPrintln_Suc spaced_Cons comp_def map_concat)
qed

lemma fmtInt_1: "fmtInt 1 = ''1''"
  by code_simp

lemma fmtInt_2: "fmtInt 2 = ''2''"
  by code_simp

text \<open>
  Claim C6, as the code has it. On a standard logger whose gate is open, \<^verbatim>\<open>Print\<close> forwards
  \<^verbatim>\<open>fmt.Sprint\<close> of its arguments: the stringified arguments one after the other, with one
  space between two neighbours when neither is a string. That is the plain concatenation
  exactly when no two neighbouring arguments are both non-strings, as in
  \<^verbatim>\<open>Print("a","b")\<close>, which yields "ab". \<^verbatim>\<open>Println\<close> forwards the stringified arguments
  separated by one space each and ended by a newline. The writer of the logger receives
  one line with the forwarded message, ended by a newline if it has none.
\<close>

theorem stdLogger_plain_rendering:
  assumes "isPrint l st" and "outs st (lg_addr (std_l l)) = Some w"
  shows "stdLogger_Print l v st = stdLogger_Output l stdCallDepth (Sprint v) st \<and>
    Sprint v = joined v \<and>
    ((Sprint v = concat (map printArg v)) = (gaps v = 0)) \<and>
    trace (stdLogger_Print l v st) = trace st @
      [Wrote w (Line (lg_prefix (std_l l)) (lg_flag (std_l l)) stdCallDepth
         (terminated (joined v)))] \<and>
    stdLogger_Println l v st = stdLogger_Output l stdCallDepth (Sprintln v) st \<and>
    Sprintln v = spaced (map printArg v) @ [newline] \<and>
    trace (stdLogger_Println l v st) = trace st @
      [Wrote w (Line (lg_prefix (std_l l)) (lg_flag (std_l l)) stdCallDepth
         (spaced (map printArg v) @ [newline]))]"
  using assms
  by (simp add: stdLogger_Print_def stdLogger_Println_def stdLogger_Output_def
      log_Output_trace Sprint_concat_iff Sprintln_spaced terminated_def)
    (simp add: Sprint_joined)

theorem stdLogger_plain_rendering_witness:
  "isPrint InfoLogger init \<and> outs init (lg_addr (std_l InfoLogger)) = Some Stdout \<and>
   gaps [GString ''a'', GString ''b''] = 0 \<and>
   Sprint [GString ''a'', GString ''b''] = ''ab'' \<and>
   Sprintln [GString ''a'', GString ''b''] = ''a b'' @ [newline] \<and>
   trace (stdLogger_Print InfoLogger [GString ''a'', GString ''b''] init) =
     [Wrote Stdout (Line ''INFO: '' 3 3 (''ab'' @ [newline]))] \<and>
   trace (stdLogger_Println InfoLogger [GString ''a'', GString ''b''] init) =
     [Wrote Stdout (Line ''INFO: '' 3 3 (''a b'' @ [newline]))]"
  using stdLogger_plain_rendering [of InfoLogger init Stdout "[GString ''a'', GString ''b'']"]
  by (simp add: isPrint_iff init_def InfoLogger_def Level_defs Level_String_def stdCallDepth_def
      LstdFlags_def Ldate_def Ltime_def newline_def stdLogger_Print_def stdLogger_Println_def
      stdLogger_Output_def log_Output_def io_Write_def Sprint_def Sprintln_def terminated_def)

text \<open>The claim as it was written fails for two integers: \<^verbatim>\<open>Print(1, 2)\<close> forwards "1 2",
  and the concatenation of the stringified arguments is "12".\<close>

theorem Print_spaces_counterexample:
  "isPrint InfoLogger init \<and>
   Sprint [GInt 1, GInt 2] = ''1 2'' \<and>
   concat (map printArg [GInt 1, GInt 2]) = ''12'' \<and>
   trace (stdLogger_Print InfoLogger [GInt 1, GInt 2] init) =
     trace (stdLogger_Output InfoLogger stdCallDepth ''1 2'' init) \<and>
   trace (stdLogger_Print InfoLogger [GInt 1, GInt 2] init) \<noteq>
     trace (stdLogger_Output InfoLogger stdCallDepth
       (concat (map printArg [GInt 1, GInt 2])) init)"
  by (simp add: isPrint_iff init_def InfoLogger_def Level_defs stdLogger_Print_def
      stdLogger_Output_def log_Output_def io_Write_def Sprint_def fmtInt_1 fmtInt_2 newline_def
      terminated_def)

section \<open>Gating of the print methods\<close>

text \<open>
  The repository holds the adapter twice. The copy modelled here is the one that comes
  with \<^verbatim>\<open>NewLogrusLogger\<close> and \<^verbatim>\<open>isEnabled\<close>; in the other copy every method has an empty
  body.
\<close>

lemma Logrus_Printf_noop: "Logrus_Printf r format v st = st"
  by (simp add: Logrus_Printf_def)



lemma stdLogger_gate_closed:
  assumes "std_level l < currentLevel (state st)"
  shows "stdLogger_Print l v st = st \<and> stdLogger_Printf sp l format v st = st \<and>
    stdLogger_Println l v st = st"
  using assms
  by (simp add: stdLogger_Print_def stdLogger_Printf_def stdLogger_Println_def isPrint_iff)

lemma stdLogger_gate_open:
  assumes "currentLevel (state st) \<le> std_level l" and "outs st (lg_addr (std_l l)) = Some w"
  shows "trace (stdLogger_Print l v st) = trace st @
      [Wrote w (Line (lg_prefix (std_l l)) (lg_flag (std_l l)) stdCallDepth
         (terminated (Sprint v)))] \<and>
    trace (stdLogger_Printf sp l format v st) = trace st @
      [Wrote w (Line (lg_prefix (std_l l)) (lg_flag (std_l l)) stdCallDepth
         (terminated (sp format v)))] \<and>
    trace (stdLogger_Println l v st) = trace st @
      [Wrote w (Line (lg_prefix (std_l l)) (lg_flag (std_l l)) stdCallDepth
         (terminated (Sprintln v)))]"
  using assms
  by (simp add: stdLogger_Print_def stdLogger_Printf_def stdLogger_Println_def isPrint_iff
      stdLogger_Output_def log_Output_trace)

lemma Logrus_gate_closed:
  assumes "lr_level r < currentLevel (state st)"
  shows "Logrus_Print r v st = st \<and> Logrus_Println r v st = st"
  using assms by (simp add: Logrus_Print_def Logrus_Println_def isEnabled_iff)

lemma logrus_Log_trace:
  assumes "logrus_IsLevelEnabled lg lvl" and "logrus_PanicLevel < lvl"
    and "outs st (lr_addr lg) = Some w"
  shows "logrus_Log lg lvl v st = st\<lparr>trace := trace st @ [Wrote w (Entry lvl (Sprint v))]\<rparr> \<and>
    logrus_Logf sp lg lvl format v st =
      st\<lparr>trace := trace st @ [Wrote w (Entry lvl (sp format v))]\<rparr>"
  using assms by (simp add: logrus_Log_def logrus_Logf_def entry_log_def io_Write_def)

lemma Logrus_gate_open:
  assumes "currentLevel (state st) \<le> lr_level r"
    and "logrus_IsLevelEnabled (logger r) (logrusLevel r)" and "logrus_PanicLevel < logrusLevel r"
    and "outs st (lr_addr (logger r)) = Some w"
  shows "trace (Logrus_Print r v st) = trace st @ [Wrote w (Entry (logrusLevel r) (Sprint v))] \<and>
    trace (Logrus_Println r v st) = trace st @ [Wrote w (Entry (logrusLevel r) (Sprint v))] \<and>
    trace (Logrus_Fatal r v st) = trace st @ [Wrote w (Entry (logrusLevel r) (Sprint v))] \<and>
    trace (Logrus_Fatalf sp r format v st) =
      trace st @ [Wrote w (Entry (logrusLevel r) (sp format v))] \<and>
    status (Logrus_Fatalf sp r format v st) = status st"
  using assms
  by (simp add: Logrus_Print_def Logrus_Println_def Logrus_Fatal_def Logrus_Fatalf_def
      isEnabled_iff logrus_Log_trace andThen_def os_Exit_def)

lemma stdLogger_emits_iff:
  assumes "outs st (lg_addr (std_l l)) = Some w"
  shows "(trace (stdLogger_Print l v st) \<noteq> trace st) = (currentLevel (state st) \<le> std_level l) \<and>
    (trace (stdLogger_Printf sp l format v st) \<noteq> trace st)
      = (currentLevel (state st) \<le> std_level l) \<and>
    (trace (stdLogger_Println l v st) \<noteq> trace st) = (currentLevel (state st) \<le> std_level l)"
proof (cases "currentLevel (state st) \<le> std_level l")
  case True
  with stdLogger_gate_open [OF True assms, of v sp format] show ?thesis
    by simp
next
  case False
  then have "std_level l < currentLevel (state st)"
    by simp
  from stdLogger_gate_closed [OF this, of v sp format] False show ?thesis
    by simp
qed

lemma Logrus_emits_iff:
  assumes "logrus_IsLevelEnabled (logger r) (logrusLevel r)"
    and "logrus_PanicLevel < logrusLevel r" and "outs st (lr_addr (logger r)) = Some w"
  shows "(trace (Logrus_Print r v st) \<noteq> trace st) = (currentLevel (state st) \<le> lr_level r) \<and>
    (trace (Logrus_Println r v st) \<noteq> trace st) = (currentLevel (state st) \<le> lr_level r)"
proof (cases "currentLevel (state st) \<le> lr_level r")
  case True
  with Logrus_gate_open [OF True assms, of v] show ?thesis
    by simp
next
  case False
  then have "lr_level r < currentLevel (state st)"
    by simp
  from Logrus_gate_closed [OF this, of v] False show ?thesis
    by simp
qed

text \<open>
  Claim C1. A call to \<^verbatim>\<open>Print\<close>, \<^verbatim>\<open>Printf\<close> or \<^verbatim>\<open>Println\<close> on a logger bound to level \<open>L\<close>
  writes to the logger's writer exactly when \<open>L\<close> is at least the threshold \<open>G\<close>, and is a
  no-op otherwise. The lemmas above show it for the three methods of the standard logger
  and for \<^verbatim>\<open>Print\<close> and \<^verbatim>\<open>Println\<close> of the adapter. \<^verbatim>\<open>Printf\<close> of the adapter departs from
  it: with \<open>L\<close> the info level and \<open>G\<close> the debug level the gate is open and the call
  writes nothing, where \<^verbatim>\<open>Print\<close> on the same logger writes an entry.
\<close>

theorem Logrus_Printf_open_gate_silent:
  "DebugLevel \<le> InfoLevel \<and>
   (let (r, st) = NewLogrusLogger InfoLevel (SetLevel DebugLevel init) in
      lr_level r = InfoLevel \<and> currentLevel (state st) = DebugLevel \<and> isEnabled r st \<and>
      trace (Logrus_Printf r ''Hello %s!'' [GString ''World''] st) = [] \<and>
      trace (Logrus_Print r [GString ''Hello World!''] st) =
        [Wrote Stderr (Entry logrus_InfoLevel ''Hello World!'')])"
  by (simp add: NewLogrusLogger_def Let_def SetLevel_def setGlobalStateLevel_def init_def
      isEnabled_iff Logrus_Printf_def Logrus_Print_def logrus_Log_def logrus_IsLevelEnabled_def
      entry_log_def io_Write_def Sprint_def Level_defs logrus_defs)

section \<open>Printf\<close>

text \<open>
  Claim C5. Under an open gate \<^verbatim>\<open>Printf(format, args...)\<close> renders the message and
  forwards it to the writer of the logger, for every implementation of the interface.
  The standard logger does (\<open>stdLogger_gate_open\<close>); the adapter forwards nothing. Here
  both are called through the interface with the same arguments, under the threshold of
  a fresh process: the standard error logger writes the rendered line, and the adapter
  bound to the error level leaves the world as it was.
\<close>

theorem Logrus_Printf_forwards_nothing:
  "(let (r, st) = NewLogrusLogger ErrorLevel init in
      isEnabled r st \<and>
      invoke sp (Structured r) (Printf ''Hello %s!'' [GString ''World'']) st = st \<and>
      contents Stderr
        (trace (invoke sp (Structured r) (Printf ''Hello %s!'' [GString ''World'']) st)) = [] \<and>
      trace (invoke sp (Std ErrorLogger) (Printf ''Hello %s!'' [GString ''World'']) st) =
        [Wrote Stdout (Line ''ERROR: '' 19 3 (terminated (sp ''Hello %s!'' [GString ''World''])))])"
  by (simp add: NewLogrusLogger_def Let_def init_def isEnabled_iff isPrint_iff Logrus_Printf_def
      contents_def stdLogger_Printf_def stdLogger_Output_def log_Output_def io_Write_def
      ErrorLogger_def Level_String_def stdCallDepth_def LstdFlags_def Ldate_def Ltime_def
      Lshortfile_def Level_defs)

section \<open>Fatal under an open gate\<close>

lemma stdLogger_Fatal_open:
  assumes "currentLevel (state st) \<le> std_level l" and "outs st (lg_addr (std_l l)) = Some w"
    and "status st = Running"
  shows "stdLogger_Fatal l v st = os_Exit 1 (stdLogger_Output l stdCallDepth (Sprint v) st) \<and>
    stdLogger_Fatalf sp l format v st =
      os_Exit 1 (stdLogger_Output l stdCallDepth (sp format v) st) \<and>
    status (stdLogger_Fatal l v st) = Exited 1 \<and>
    status (stdLogger_Fatalf sp l format v st) = Exited 1"
  using assms
  by (simp add: stdLogger_Fatal_def stdLogger_Fatalf_def isPrint_iff stdLogger_Output_def
      log_Output_trace andThen_def os_Exit_def)

text \<open>
  Claim C3. Under an open gate \<^verbatim>\<open>Fatal\<close> and \<^verbatim>\<open>Fatalf\<close> first emit the rendered message and
  then end the process with exit status 1, for every implementation of the interface.
  The standard logger does (\<open>stdLogger_Fatal_open\<close>), and so does \<^verbatim>\<open>Fatal\<close> of the adapter.
  \<^verbatim>\<open>Fatalf\<close> of the adapter emits and returns: the process keeps running.
\<close>

theorem Logrus_Fatalf_returns:
  "(let (r, st) = NewLogrusLogger InfoLevel (SetLevel DebugLevel init) in
      isEnabled r st \<and>
      trace (Logrus_Fatalf sp r ''boom %d'' [GInt 1] st) =
        [Wrote Stderr (Entry logrus_InfoLevel (sp ''boom %d'' [GInt 1]))] \<and>
      status (Logrus_Fatalf sp r ''boom %d'' [GInt 1] st) = Running \<and>
      status (Logrus_Fatal r [GString ''boom''] st) = Exited 1 \<and>
      status (stdLogger_Fatalf sp InfoLogger ''boom %d'' [GInt 1] st) = Exited 1)"
  by (simp add: NewLogrusLogger_def Let_def SetLevel_def setGlobalStateLevel_def init_def
      isEnabled_iff isPrint_iff Logrus_Fatalf_def Logrus_Fatal_def logrus_Log_def logrus_Logf_def
      logrus_IsLevelEnabled_def entry_log_def io_Write_def andThen_def os_Exit_def
      stdLogger_Fatalf_def stdLogger_Output_def log_Output_def InfoLogger_def
      Level_defs logrus_defs)

section \<open>The lock\<close>

lemma isPrint_acc_result: "fst (isPrint_acc l st) = isPrint l st"
  by (simp add: isPrint_acc_def getState_acc_def isPrint_def getState_def)

lemma isEnabled_acc_result: "fst (isEnabled_acc r st) = isEnabled r st"
  by (simp add: isEnabled_acc_def getState_acc_def isEnabled_def getState_def)

lemma setGlobalStateLevel_acc_result:
  "fst (setGlobalStateLevel_acc lvl st) = setGlobalStateLevel lvl st"
  by (simp add: setGlobalStateLevel_acc_def setGlobalStateLevel_def)

text \<open>
  Claim C9. Every read and every write of the threshold happens while the mutex is held.
  The write in \<^verbatim>\<open>setGlobalStateLevel\<close> does. The read of a gate check does not:
  \<^verbatim>\<open>getState\<close> releases the mutex when it returns the pointer, and \<^verbatim>\<open>isPrint\<close> and
  \<^verbatim>\<open>isEnabled\<close> read \<^verbatim>\<open>currentLevel\<close> through that pointer afterwards.
\<close>

theorem isPrint_reads_outside_lock:
  "snd (isPrint_acc l st) = [Lock, ReadStatePtr, Unlock, ReadCurrentLevel] \<and>
   \<not> guarded False (snd (isPrint_acc l st)) \<and>
   \<not> guarded False (snd (isEnabled_acc r st)) \<and>
   guarded False (snd (getState_acc st)) \<and>
   guarded False (snd (setGlobalStateLevel_acc lvl st))"
  by (simp add: isPrint_acc_def isEnabled_acc_def getState_acc_def setGlobalStateLevel_acc_def)

section \<open>Loggers bound to the disabled level\<close>







end
